theory Spec2Isabelle
  imports Main
begin

section \<open>Python values: exceptions, dates, times of day\<close>

text \<open>
  The routes of \<open>app/routes/guests.py\<close> either return a pair of a JSON body and a
  status code, or leave through an exception that no handler of the module catches.
  An exception is the left summand of a result.
\<close>

datatype exn =
    KeyError string
  | ValueError
  | TypeError
  | AttributeError
  | HTTPException nat

type_synonym 'a result = "exn + 'a"

definition bind_r :: "'a result \<Rightarrow> ('a \<Rightarrow> 'b result) \<Rightarrow> 'b result" where
  "bind_r m f = (case m of Inl e \<Rightarrow> Inl e | Inr x \<Rightarrow> f x)"

text \<open>
  \<open>datetime.date\<close> and \<open>datetime.time\<close>. A time of day carries its microseconds and,
  when it is aware, the offset of its time zone from UTC, in microseconds.
\<close>

record date =
  year :: nat
  month :: nat
  day :: nat

record time =
  hour :: nat
  minute :: nat
  second :: nat
  microsecond :: nat
  utcoffset :: "int option"

definition is_leap :: "nat \<Rightarrow> bool" where
  "is_leap y = (if y mod 400 = 0 then True else if y mod 100 = 0 then False else y mod 4 = 0)"

definition days_in_month :: "nat \<Rightarrow> nat \<Rightarrow> nat" where
  "days_in_month y m =
     (if m = 2 then (if is_leap y then 29 else 28)
      else if m = 4 \<or> m = 6 \<or> m = 9 \<or> m = 11 then 30
      else 31)"

definition valid_date :: "date \<Rightarrow> bool" where
  "valid_date d =
     (1 \<le> year d \<and> 1 \<le> month d \<and> month d \<le> 12 \<and>
      1 \<le> day d \<and> day d \<le> days_in_month (year d) (month d))"

definition valid_time :: "time \<Rightarrow> bool" where
  "valid_time t = (hour t < 24 \<and> minute t < 60 \<and> second t < 60)"

text \<open>Comparison of dates, as the columns of type \<open>Date\<close> compare.\<close>

definition date_le :: "date \<Rightarrow> date \<Rightarrow> bool" where
  "date_le a b =
     (year a < year b \<or>
      (year a = year b \<and> (month a < month b \<or> (month a = month b \<and> day a \<le> day b))))"

text \<open>
  The proleptic Gregorian day number of a date (the ordinal of \<open>datetime.date\<close>:
  0001-01-01 is day 1), and the instant of a date and a time of day in seconds.
\<close>

definition days_before_year :: "nat \<Rightarrow> int" where
  "days_before_year y =
     (let p = int y - 1 in 365 * p + p div 4 - p div 100 + p div 400)"

definition days_before_month :: "nat \<Rightarrow> nat \<Rightarrow> nat" where
  "days_before_month y m = sum_list (map (days_in_month y) [1..<m])"

definition day_number :: "date \<Rightarrow> int" where
  "day_number d =
     days_before_year (year d) + int (days_before_month (year d) (month d)) + int (day d)"

definition seconds_of :: "time \<Rightarrow> nat" where
  "seconds_of t = hour t * 3600 + minute t * 60 + second t"

definition time_of_seconds :: "nat \<Rightarrow> time" where
  "time_of_seconds n =
     \<lparr>hour = n div 3600, minute = (n mod 3600) div 60, second = n mod 60,
      microsecond = 0, utcoffset = None\<rparr>"

text \<open>\<open>time(h, m, s)\<close>: whole seconds, no time zone.\<close>

definition time_hms :: "nat \<Rightarrow> nat \<Rightarrow> nat \<Rightarrow> time" where
  "time_hms h m s = \<lparr>hour = h, minute = m, second = s, microsecond = 0, utcoffset = None\<rparr>"

definition instant :: "date \<Rightarrow> time \<Rightarrow> int" where
  "instant d t = day_number d * 86400 + int (seconds_of t)"

definition next_day :: "date \<Rightarrow> date" where
  "next_day d =
     (if day d < days_in_month (year d) (month d) then d\<lparr>day := day d + 1\<rparr>
      else if month d < 12 then d\<lparr>month := month d + 1, day := 1\<rparr>
      else \<lparr>year = year d + 1, month = 1, day = 1\<rparr>)"

subsection \<open>Parsing and formatting\<close>

text \<open>
  A string is the sequence of its bytes, as the parser of times in C sees it. The digits
  are the ASCII digits; the decimal digits of other scripts, which \<open>strptime\<close> also
  takes, are outside this model.
\<close>

definition digit_of :: "char \<Rightarrow> nat option" where
  "digit_of c =
     (let n = (of_char c :: nat) in if 48 \<le> n \<and> n \<le> 57 then Some (n - 48) else None)"

definition is_digit :: "char \<Rightarrow> bool" where
  "is_digit c = (case digit_of c of None \<Rightarrow> False | Some k \<Rightarrow> True)"

fun digits_val :: "nat \<Rightarrow> string \<Rightarrow> nat option" where
  "digits_val acc [] = Some acc"
| "digits_val acc (c # cs) =
     (case digit_of c of None \<Rightarrow> None | Some k \<Rightarrow> digits_val (10 * acc + k) cs)"

definition number_of :: "string \<Rightarrow> nat option" where
  "number_of s = (if s = [] then None else digits_val 0 s)"

fun split_on :: "char \<Rightarrow> string \<Rightarrow> string list" where
  "split_on sep [] = [[]]"
| "split_on sep (c # cs) =
     (if c = sep then [] # split_on sep cs
      else (case split_on sep cs of [] \<Rightarrow> [[c]] | w # ws \<Rightarrow> (c # w) # ws))"

text \<open>
  \<open>datetime.strptime(s, '%Y-%m-%d').date()\<close>: four digits of year, then a month of one
  or two digits and a day of one or two digits, or of a space and a digit, separated by
  \<open>-\<close>; the fields must name a date of the calendar, from year 1 on. Anything else
  raises \<open>ValueError\<close>.
\<close>

definition day_field :: "string \<Rightarrow> nat option" where
  "day_field s =
     (case s of
        [a, b] \<Rightarrow> if a = CHR '' '' then number_of [b] else number_of s
      | _ \<Rightarrow> number_of s)"

definition strptime_date :: "string \<Rightarrow> date result" where
  "strptime_date s =
     (case split_on CHR ''-'' s of
        [ys, ms, ds] \<Rightarrow>
          (if length ys = 4 \<and> length ms \<le> 2 \<and> length ds \<le> 2 then
             (case (number_of ys, number_of ms, day_field ds) of
                (Some y, Some m, Some d) \<Rightarrow>
                  (let r = \<lparr>year = y, month = m, day = d\<rparr>
                   in if valid_date r then Inr r else Inl ValueError)
              | _ \<Rightarrow> Inl ValueError)
           else Inl ValueError)
      | _ \<Rightarrow> Inl ValueError)"

text \<open>
  \<open>time.fromisoformat(s)\<close>, after its implementation in C. A part of the string, the
  time of day or the offset of the zone, is read as \<open>HH[:MM[:SS]]\<close> or \<open>HH[MM[SS]]\<close>
  with an optional fraction of a second after \<open>.\<close> or \<open>,\<close>; \<open>f\<close> is the character that
  follows the part in the buffer, the NUL that ends the string when the part is its end.
  The reader of a part answers the fields it has read, and whether it stopped before a
  character other than NUL.
\<close>

definition NUL :: char where
  "NUL = CHR 0x00"

definition two_digits :: "char \<Rightarrow> char \<Rightarrow> nat option" where
  "two_digits a b =
     (case (digit_of a, digit_of b) of (Some x, Some y) \<Rightarrow> Some (10 * x + y) | _ \<Rightarrow> None)"

fun two_digits_at :: "string \<Rightarrow> (nat \<times> string) option" where
  "two_digits_at (a # b # rest) =
     (case two_digits a b of None \<Rightarrow> None | Some v \<Rightarrow> Some (v, rest))"
| "two_digits_at _ = None"

text \<open>
  The fraction: up to six digits are the microseconds, further digits are dropped.
\<close>

definition parse_fraction :: "string \<Rightarrow> char \<Rightarrow> (nat \<times> bool) option" where
  "parse_fraction xs f =
     (let n = min 6 (length xs)
      in case digits_val 0 (take n xs) of
           None \<Rightarrow> None
         | Some v \<Rightarrow>
             (let rest = dropWhile is_digit (drop n xs);
                  c = (case rest of [] \<Rightarrow> f | c # _ \<Rightarrow> c)
              in Some (v * 10 ^ (6 - n), c \<noteq> NUL)))"

text \<open>
  What follows the two digits of a field: the end of the part, a \<open>:\<close> when the first
  field was followed by one, the mark of the fraction, or at once the next field.
\<close>

datatype step = Fail | Done nat bool | Next string

definition after_digits :: "bool \<Rightarrow> string \<Rightarrow> char \<Rightarrow> step" where
  "after_digits has_separator rest f =
     (case rest of
        [] \<Rightarrow> Done 0 (f \<noteq> NUL)
      | c # rest' \<Rightarrow>
          if rest' = [] then Done 0 (c \<noteq> NUL)
          else if has_separator \<and> c = CHR '':'' then Next rest'
          else if c = CHR ''.'' \<or> c = CHR '','' then
            (case parse_fraction rest' f of None \<Rightarrow> Fail | Some (us, unread) \<Rightarrow> Done us unread)
          else if has_separator then Fail
          else Next rest)"

definition parse_hh_mm_ss_ff :: "string \<Rightarrow> char \<Rightarrow> ((nat \<times> nat \<times> nat \<times> nat) \<times> bool) option" where
  "parse_hh_mm_ss_ff xs f =
     (case two_digits_at xs of
        None \<Rightarrow> None
      | Some (h, r0) \<Rightarrow>
          (let has_separator = ((case r0 of [] \<Rightarrow> f | c # _ \<Rightarrow> c) = CHR '':'')
           in case after_digits has_separator r0 f of
                Fail \<Rightarrow> None
              | Done us unread \<Rightarrow> Some ((h, 0, 0, us), unread)
              | Next r1 \<Rightarrow>
                  (case two_digits_at r1 of
                     None \<Rightarrow> None
                   | Some (m, r2) \<Rightarrow>
                       (case after_digits has_separator r2 f of
                          Fail \<Rightarrow> None
                        | Done us unread \<Rightarrow> Some ((h, m, 0, us), unread)
                        | Next r3 \<Rightarrow>
                            (case two_digits_at r3 of
                               None \<Rightarrow> None
                             | Some (sec, r4) \<Rightarrow>
                                 (case after_digits has_separator r4 f of
                                    Fail \<Rightarrow> None
                                  | Done us unread \<Rightarrow> Some ((h, m, sec, us), unread)
                                  | Next r5 \<Rightarrow>
                                      (case parse_fraction r5 f of
                                         None \<Rightarrow> None
                                       | Some (us, unread) \<Rightarrow> Some ((h, m, sec, us), unread))))))))"

text \<open>
  The zone starts at the first \<open>Z\<close>, \<open>+\<close> or \<open>-\<close>. Without a zone the time of day must
  reach the end of the string. \<open>Z\<close> must be the last character. An offset must reach
  the end of the string; it is UTC when its whole seconds are 0, and otherwise it must
  lie strictly between minus and plus 24 hours.
\<close>

definition is_tz_char :: "char \<Rightarrow> bool" where
  "is_tz_char c = (c = CHR ''Z'' \<or> c = CHR ''+'' \<or> c = CHR ''-'')"

definition no_tz_char :: "char \<Rightarrow> bool" where
  "no_tz_char c = (if is_tz_char c then False else True)"

definition tzinfo_of :: "string \<Rightarrow> bool \<Rightarrow> int option option" where
  "tzinfo_of tz unread =
     (case tz of
        [] \<Rightarrow> if unread then None else Some None
      | z # rest \<Rightarrow>
          if z = CHR ''Z'' then
            (if (case rest of [] \<Rightarrow> NUL | c # _ \<Rightarrow> c) = NUL then Some (Some 0) else None)
          else
            (case parse_hh_mm_ss_ff rest NUL of
               None \<Rightarrow> None
             | Some ((h, m, sec, us), unread') \<Rightarrow>
                 if unread' then None
                 else
                   (let sign = (if z = CHR ''-'' then - 1 else 1);
                        tzoffset = sign * (int h * 3600 + int m * 60 + int sec);
                        total = tzoffset * 1000000 + sign * int us
                    in if tzoffset = 0 then Some (Some 0)
                       else if - 86400000000 < total \<and> total < 86400000000 then Some (Some total)
                       else None)))"

text \<open>The constructor \<open>time(hour, minute, second, microsecond, tzinfo)\<close> checks the ranges.\<close>

definition new_time :: "nat \<Rightarrow> nat \<Rightarrow> nat \<Rightarrow> nat \<Rightarrow> int option \<Rightarrow> time result" where
  "new_time h m sec us tz =
     (if h < 24 \<and> m < 60 \<and> sec < 60 \<and> us < 1000000
      then Inr \<lparr>hour = h, minute = m, second = sec, microsecond = us, utcoffset = tz\<rparr>
      else Inl ValueError)"

definition time_fromisoformat :: "string \<Rightarrow> time result" where
  "time_fromisoformat time_string =
     (let s = (case time_string of
                 [] \<Rightarrow> []
               | c # cs \<Rightarrow> if c = CHR ''T'' then cs else time_string);
          tz = dropWhile no_tz_char s
      in case parse_hh_mm_ss_ff (takeWhile no_tz_char s) (case tz of [] \<Rightarrow> NUL | c # _ \<Rightarrow> c) of
           None \<Rightarrow> Inl ValueError
         | Some ((h, m, sec, us), unread) \<Rightarrow>
             (case tzinfo_of tz unread of
                None \<Rightarrow> Inl ValueError
              | Some tzinfo \<Rightarrow> new_time h m sec us tzinfo))"

definition digit_char :: "nat \<Rightarrow> char" where
  "digit_char k = ''0123456789'' ! k"

definition pad2 :: "nat \<Rightarrow> string" where
  "pad2 n = [digit_char (n div 10 mod 10), digit_char (n mod 10)]"

fun decimal :: "nat \<Rightarrow> string" where
  "decimal n = (if n < 10 then [digit_char n] else decimal (n div 10) @ [digit_char (n mod 10)])"

declare decimal.simps [simp del]

text \<open>
  \<open>strftime('%H:%M:%S')\<close> of a time, and \<open>strftime('%Y-%m-%d')\<close> of a date, where the C
  library writes the year without padding.
\<close>

definition time_strftime :: "time \<Rightarrow> string" where
  "time_strftime t = pad2 (hour t) @ '':'' @ pad2 (minute t) @ '':'' @ pad2 (second t)"

definition date_strftime :: "date \<Rightarrow> string" where
  "date_strftime d = decimal (year d) @ ''-'' @ pad2 (month d) @ ''-'' @ pad2 (day d)"

section \<open>The Guest model (\<open>app/models.py\<close>)\<close>

text \<open>
  A row of the table of guests. The columns \<open>id\<close>, \<open>guest_type_id\<close>, \<open>inviter_id\<close>,
  \<open>coming_date\<close>, \<open>coming_time\<close>, \<open>stay_time\<close> and \<open>comment\<close> are those of the class
  \<open>Guest\<close>. The constructor calls of the routes leave \<open>id\<close> and \<open>stay_time\<close> unset
  (\<open>None\<close>): the store assigns the key at the commit, and \<open>stay_time\<close> is never assigned
  by a route. The exit date and the exit time are the derived fields of the
  specification, which \<open>set_exit_time\<close> fills.
\<close>

record guest =
  id_g :: "int option"
  guest_type_id :: int
  inviter_id :: int
  coming_date :: date
  coming_time :: time
  stay_time :: "time option"
  exit_date :: "date option"
  exit_time :: "time option"
  comment :: "string option"

text \<open>The constructor call \<open>Guest(guest_type_id=.., inviter_id=.., coming_date=.., coming_time=.., comment=..)\<close>.\<close>

definition Guest_init :: "int \<Rightarrow> int \<Rightarrow> date \<Rightarrow> time \<Rightarrow> string option \<Rightarrow> guest" where
  "Guest_init gt iv cd ct cm =
     \<lparr>id_g = None, guest_type_id = gt, inviter_id = iv, coming_date = cd, coming_time = ct,
      stay_time = None, exit_date = None, exit_time = None, comment = cm\<rparr>"

text \<open>
  Modelled from the spec: \<open>Guest.set_exit_time\<close>, which \<open>create_guest\<close> and
  \<open>update_guest\<close> call and which is not defined under \<open>app/models.py\<close>. The
  specification: the record stores the stay duration, and "additionally stores a derived
  exit instant = arrival instant + \<open>stay_time\<close> duration, split back into an exit date and
  exit time-of-day (handling day rollover when the sum of times crosses midnight)".
\<close>

definition set_exit_time :: "guest \<Rightarrow> date \<Rightarrow> time \<Rightarrow> time \<Rightarrow> guest" where
  "set_exit_time self cd ct st =
     (let total = seconds_of ct + seconds_of st
      in self\<lparr>stay_time := Some st,
              exit_date := Some (if 86400 \<le> total then next_day cd else cd),
              exit_time := Some (time_of_seconds (total mod 86400))\<rparr>)"

text \<open>The dictionary of \<open>Guest.to_dict\<close>; \<open>strftime\<close> on an unset column raises.\<close>

record guest_dict =
  d_id :: "int option"
  d_guest_type_id :: int
  d_inviter_id :: int
  d_coming_date :: string
  d_coming_time :: string
  d_stay_time :: string
  d_comment :: "string option"

definition to_dict :: "guest \<Rightarrow> guest_dict result" where
  "to_dict self =
     (case stay_time self of
        None \<Rightarrow> Inl AttributeError
      | Some st \<Rightarrow>
          Inr \<lparr>d_id = id_g self,
               d_guest_type_id = guest_type_id self,
               d_inviter_id = inviter_id self,
               d_coming_date = date_strftime (coming_date self),
               d_coming_time = time_strftime (coming_time self),
               d_stay_time = time_strftime st,
               d_comment = comment self\<rparr>)"

section \<open>Requests, responses and the store\<close>

text \<open>
  The JSON body of a request is an object of integers, strings and nulls. Reading a
  missing key raises \<open>KeyError\<close>; a value of another JSON type than the column or the
  parser takes raises \<open>TypeError\<close>.
\<close>

datatype json = JNull | JInt int | JStr string

type_synonym payload = "string \<rightharpoonup> json"

definition get_item :: "payload \<Rightarrow> string \<Rightarrow> json result" where
  "get_item data k = (case data k of None \<Rightarrow> Inl (KeyError k) | Some v \<Rightarrow> Inr v)"

definition as_str :: "json \<Rightarrow> string result" where
  "as_str v = (case v of JStr s \<Rightarrow> Inr s | _ \<Rightarrow> Inl TypeError)"

definition as_int :: "json \<Rightarrow> int result" where
  "as_int v = (case v of JInt n \<Rightarrow> Inr n | _ \<Rightarrow> Inl TypeError)"

definition as_opt_str :: "json \<Rightarrow> string option result" where
  "as_opt_str v = (case v of JStr s \<Rightarrow> Inr (Some s) | JNull \<Rightarrow> Inr None | _ \<Rightarrow> Inl TypeError)"

text \<open>The map of field names to messages that the schema's \<open>validate\<close> returns.\<close>

type_synonym errors = "(string \<times> string list) list"

text \<open>The bodies the routes build with \<open>jsonify\<close>, and the empty body of status 204.\<close>

datatype body =
    Empty
  | ErrorMsg string
  | Errors errors
  | GuestBody guest_dict
  | GuestList "guest_dict list" nat "int option" "int option"

type_synonym response = "body \<times> nat"

text \<open>
  The store is the table of committed rows, in the order of insertion.
  \<open>db.session.get(Guest, {'id': guest_id})\<close> is the row of that key, if any; a commit of
  a new object appends it under a fresh key; a commit of a fetched object replaces its
  row; \<open>db.session.delete\<close> and the commit remove it.
\<close>

type_synonym store = "guest list"

definition session_get :: "store \<Rightarrow> int \<Rightarrow> guest option" where
  "session_get st guest_id = find (\<lambda>g. id_g g = Some guest_id) st"

fun max_id :: "store \<Rightarrow> int" where
  "max_id [] = 0"
| "max_id (g # gs) = (case id_g g of None \<Rightarrow> max_id gs | Some i \<Rightarrow> max i (max_id gs))"

definition session_add :: "store \<Rightarrow> guest \<Rightarrow> guest \<times> store" where
  "session_add st g = (let g' = g\<lparr>id_g := Some (max_id st + 1)\<rparr> in (g', st @ [g']))"

fun session_replace :: "store \<Rightarrow> int \<Rightarrow> guest \<Rightarrow> store" where
  "session_replace [] guest_id g' = []"
| "session_replace (g # gs) guest_id g' =
     (if id_g g = Some guest_id then g' # gs else g # session_replace gs guest_id g')"

definition session_delete :: "store \<Rightarrow> int \<Rightarrow> store" where
  "session_delete st guest_id = filter (\<lambda>g. id_g g \<noteq> Some guest_id) st"

section \<open>The routes (\<open>app/routes/guests.py\<close>)\<close>

definition date_item :: "payload \<Rightarrow> string \<Rightarrow> date result" where
  "date_item data k = bind_r (get_item data k) (\<lambda>v. bind_r (as_str v) strptime_date)"

definition time_item :: "payload \<Rightarrow> string \<Rightarrow> time result" where
  "time_item data k = bind_r (get_item data k) (\<lambda>v. bind_r (as_str v) time_fromisoformat)"

definition int_item :: "payload \<Rightarrow> string \<Rightarrow> int result" where
  "int_item data k = bind_r (get_item data k) as_int"

definition opt_str_item :: "payload \<Rightarrow> string \<Rightarrow> string option result" where
  "opt_str_item data k = bind_r (get_item data k) as_opt_str"

subsection \<open>POST /guests\<close>

text \<open>
  \<open>validate\<close> is the \<open>validate\<close> method of the schema object (\<open>schemas/guest_schema.py\<close>),
  taken as a parameter: it maps the payload, and the key of the guest under update if
  any, to the map of errors. \<open>identity\<close> is the value of \<open>get_jwt_identity()\<close>.

  The object under construction (lines 108 to 116) is built before anything reaches the
  session; \<open>db.session.add\<close> and \<open>db.session.commit\<close> then write it.
\<close>

definition new_guest_of :: "payload \<Rightarrow> guest result" where
  "new_guest_of data =
     bind_r (date_item data ''coming_date'') (\<lambda>cd.
     bind_r (time_item data ''coming_time'') (\<lambda>ct.
     bind_r (time_item data ''stay_time'') (\<lambda>sd.
     bind_r (int_item data ''guest_type_id'') (\<lambda>gt.
     bind_r (int_item data ''inviter_id'') (\<lambda>iv.
     bind_r (opt_str_item data ''comment'') (\<lambda>cm.
     Inr (set_exit_time (Guest_init gt iv cd ct cm) cd ct sd)))))))"

definition create_guest ::
  "(payload \<Rightarrow> int option \<Rightarrow> errors) \<Rightarrow> int \<Rightarrow> payload \<Rightarrow> store \<Rightarrow> response result \<times> store" where
  "create_guest validate identity body st =
     (let data = body(''inviter_id'' \<mapsto> JInt identity);
          errs = validate data None
      in if errs \<noteq> [] then (Inr (Errors errs, 400), st)
         else
           (case new_guest_of data of
              Inl e \<Rightarrow> (Inl e, st)
            | Inr new_guest \<Rightarrow>
                (case session_add st new_guest of
                   (g, st') \<Rightarrow>
                     (case to_dict g of
                        Inl e \<Rightarrow> (Inl e, st')
                      | Inr d \<Rightarrow> (Inr (GuestBody d, 201), st')))))"

subsection \<open>GET /guests/<id>\<close>

definition get_guest :: "int \<Rightarrow> store \<Rightarrow> response result" where
  "get_guest guest_id st =
     (case session_get st guest_id of
        None \<Rightarrow> Inr (ErrorMsg ''Guest not found'', 404)
      | Some g \<Rightarrow> bind_r (to_dict g) (\<lambda>d. Inr (GuestBody d, 200)))"

subsection \<open>PUT /guests/<id>\<close>

text \<open>
  Lines 187 to 195: the three fields are parsed, then the attributes of the fetched
  object are assigned in the order of the source. The assignments change the object of
  the session only; the row changes at the commit.
\<close>

definition updated_guest_of :: "guest \<Rightarrow> payload \<Rightarrow> guest result" where
  "updated_guest_of g data =
     bind_r (date_item data ''coming_date'') (\<lambda>cd.
     bind_r (time_item data ''coming_time'') (\<lambda>ct.
     bind_r (time_item data ''stay_time'') (\<lambda>sd.
     bind_r (int_item data ''guest_type_id'') (\<lambda>gt.
     bind_r (int_item data ''inviter_id'') (\<lambda>iv.
     bind_r (date_item data ''coming_date'') (\<lambda>cd'.
     bind_r (time_item data ''coming_time'') (\<lambda>ct'.
     (let g' = set_exit_time
                 (g\<lparr>guest_type_id := gt, inviter_id := iv, coming_date := cd', coming_time := ct'\<rparr>)
                 cd ct sd
      in bind_r (opt_str_item data ''comment'') (\<lambda>cm.
         Inr (g'\<lparr>comment := cm\<rparr>))))))))))"

definition update_guest ::
  "(payload \<Rightarrow> int option \<Rightarrow> errors) \<Rightarrow> int \<Rightarrow> int \<Rightarrow> payload \<Rightarrow> store \<Rightarrow> response result \<times> store" where
  "update_guest validate identity guest_id data st =
     (case session_get st guest_id of
        None \<Rightarrow> (Inr (ErrorMsg ''Guest not found'', 404), st)
      | Some g \<Rightarrow>
          if identity \<noteq> inviter_id g then (Inr (ErrorMsg ''Access denied'', 403), st)
          else
            (let errs = validate data (Some guest_id)
             in if errs \<noteq> [] then (Inr (Errors errs, 400), st)
                else
                  (case updated_guest_of g data of
                     Inl e \<Rightarrow> (Inl e, st)
                   | Inr g' \<Rightarrow>
                       (let st' = session_replace st guest_id g'
                        in case to_dict g' of
                             Inl e \<Rightarrow> (Inl e, st')
                           | Inr d \<Rightarrow> (Inr (GuestBody d, 200), st')))))"

subsection \<open>DELETE /guests/<id>\<close>

definition delete_guest :: "int \<Rightarrow> int \<Rightarrow> store \<Rightarrow> response result \<times> store" where
  "delete_guest identity guest_id st =
     (case session_get st guest_id of
        None \<Rightarrow> (Inr (ErrorMsg ''Guest not found'', 404), st)
      | Some g \<Rightarrow>
          if identity \<noteq> inviter_id g then (Inr (ErrorMsg ''Access denied'', 403), st)
          else (Inr (Empty, 204), session_delete st guest_id))"

subsection \<open>GET /guests\<close>

text \<open>
  The query parameters after \<open>request.args.get(.., type=..)\<close>: a parameter that is
  missing, or that \<open>int\<close> does not convert, is \<open>None\<close> here and takes the default of
  the call (1 for \<open>page\<close>, 10 for \<open>per_page\<close>, \<open>None\<close> for the others).
\<close>

record query_args =
  q_page :: "int option"
  q_per_page :: "int option"
  q_inviter_id :: "int option"
  q_guest_type_id :: "int option"
  q_start_date :: "string option"
  q_end_date :: "string option"

text \<open>Truth of a Python value in \<open>if v:\<close>: \<open>None\<close>, 0 and the empty string are false.\<close>

definition truthy_int :: "int option \<Rightarrow> bool" where
  "truthy_int v = (case v of None \<Rightarrow> False | Some n \<Rightarrow> n \<noteq> 0)"

definition truthy_str :: "string option \<Rightarrow> bool" where
  "truthy_str v = (case v of None \<Rightarrow> False | Some s \<Rightarrow> s \<noteq> [])"

text \<open>\<open>datetime.strptime\<close> on a query value: \<open>None\<close> is not a string.\<close>

definition strptime_arg :: "string option \<Rightarrow> date result" where
  "strptime_arg v = (case v of None \<Rightarrow> Inl TypeError | Some s \<Rightarrow> strptime_date s)"

text \<open>
  Modelled from the spec: the column \<open>Guest.start_date\<close> that the date predicates of the
  query compare, which the class \<open>Guest\<close> of \<open>app/models.py\<close> does not declare. The
  specification: the date filters "filter on the guest's arrival date".
\<close>

definition Guest_start_date :: "guest \<Rightarrow> date" where
  "Guest_start_date g = coming_date g"

text \<open>\<open>select_result.where(p)\<close>: the statement with one more predicate.\<close>

definition where_clause :: "(guest \<Rightarrow> bool) \<Rightarrow> (guest \<Rightarrow> bool) \<Rightarrow> guest \<Rightarrow> bool" where
  "where_clause sel p = (\<lambda>g. sel g \<and> p g)"

text \<open>Lines 39 to 56: the statement the route builds from the filter parameters.\<close>

definition select_of :: "query_args \<Rightarrow> (guest \<Rightarrow> bool) result" where
  "select_of args =
     (let sel0 = (\<lambda>g. True);
          sel1 = (if truthy_int (q_inviter_id args)
                  then where_clause sel0 (\<lambda>g. Some (inviter_id g) = q_inviter_id args)
                  else sel0);
          sel2 = (if truthy_int (q_guest_type_id args)
                  then where_clause sel1 (\<lambda>g. Some (guest_type_id g) = q_guest_type_id args)
                  else sel1)
      in bind_r (if truthy_str (q_start_date args)
                 then bind_r (strptime_arg (q_start_date args)) (\<lambda>start_date.
                      Inr (where_clause sel2 (\<lambda>g. date_le start_date (Guest_start_date g))))
                 else Inr sel2) (\<lambda>sel3.
         if truthy_str (q_start_date args)
         then bind_r (strptime_arg (q_end_date args)) (\<lambda>end_date.
              Inr (where_clause sel3 (\<lambda>g. date_le (Guest_start_date g) end_date)))
         else Inr sel3))"

text \<open>
  \<open>db.paginate(select, page=.., per_page=..)\<close> of Flask-SQLAlchemy, with its defaults
  \<open>error_out=True\<close> and \<open>count=True\<close>: \<open>per_page\<close> is capped by \<open>max_per_page\<close> when the
  extension sets one; a page or a page size below 1 aborts with 404, and so does an
  empty page other than the first. The object carries the rows of the page, the count
  of all the rows the statement selects, and the numbers of the neighbouring pages.
\<close>

record pagination =
  items :: "guest list"
  total :: nat
  page :: int
  per_page :: int

definition effective_per_page :: "int option \<Rightarrow> int \<Rightarrow> int" where
  "effective_per_page max_per_page pp = (case max_per_page of None \<Rightarrow> pp | Some m \<Rightarrow> min pp m)"

definition paginate ::
  "int option \<Rightarrow> (guest \<Rightarrow> bool) \<Rightarrow> int \<Rightarrow> int \<Rightarrow> store \<Rightarrow> pagination result" where
  "paginate max_per_page sel page_number pp0 st =
     (let pp = effective_per_page max_per_page pp0
      in if page_number < 1 then Inl (HTTPException 404)
         else if pp < 1 then Inl (HTTPException 404)
         else
           (let rows = filter sel st;
                its = take (nat pp) (drop (nat ((page_number - 1) * pp)) rows)
            in if its = [] \<and> page_number \<noteq> 1 then Inl (HTTPException 404)
               else Inr \<lparr>items = its, total = length rows, page = page_number, per_page = pp\<rparr>))"

definition pages :: "pagination \<Rightarrow> int" where
  "pages p = (if total p = 0 then 0 else (int (total p) + per_page p - 1) div per_page p)"

definition has_prev :: "pagination \<Rightarrow> bool" where
  "has_prev p = (page p > 1)"

definition prev_num :: "pagination \<Rightarrow> int option" where
  "prev_num p = (if \<not> has_prev p then None else Some (page p - 1))"

definition has_next :: "pagination \<Rightarrow> bool" where
  "has_next p = (page p < pages p)"

definition next_num :: "pagination \<Rightarrow> int option" where
  "next_num p = (if \<not> has_next p then None else Some (page p + 1))"

text \<open>The loop of lines 70 to 73: \<open>to_dict\<close> of each row of the page, in order.\<close>

fun to_dicts :: "guest list \<Rightarrow> guest_dict list result" where
  "to_dicts [] = Inr []"
| "to_dicts (g # gs) =
     bind_r (to_dict g) (\<lambda>d. bind_r (to_dicts gs) (\<lambda>ds. Inr (d # ds)))"

definition get_guests :: "int option \<Rightarrow> query_args \<Rightarrow> store \<Rightarrow> response result" where
  "get_guests max_per_page args st =
     (let page_number = (case q_page args of None \<Rightarrow> 1 | Some n \<Rightarrow> n);
          pp = (case q_per_page args of None \<Rightarrow> 10 | Some n \<Rightarrow> n)
      in bind_r (select_of args) (\<lambda>select_result.
         bind_r (paginate max_per_page select_result page_number pp st) (\<lambda>resulting_page.
           (let total_guests = total resulting_page;
                prev_page = (if has_prev resulting_page then prev_num resulting_page else None);
                next_page = (if has_next resulting_page then next_num resulting_page else None)
            in bind_r (to_dicts (items resulting_page)) (\<lambda>output.
               Inr (GuestList output total_guests prev_page next_page, 200))))))"

text \<open>
  The date filters as the specification states them: the arrival date of the guest lies
  in the inclusive range, each bound applied when it is given.
\<close>

definition in_date_range :: "date option \<Rightarrow> date option \<Rightarrow> guest \<Rightarrow> bool" where
  "in_date_range start_date end_date g =
     ((case start_date of None \<Rightarrow> True | Some a \<Rightarrow> date_le a (coming_date g)) \<and>
      (case end_date of None \<Rightarrow> True | Some b \<Rightarrow> date_le (coming_date g) b))"

section \<open>The schema\<close>

text \<open>
  Modelled from the spec: \<open>GuestSchema.validate\<close> of \<open>schemas/guest_schema.py\<close>, which
  the routes import and which is not among the sources. The specification: a payload is
  rejected, with a map of field to message, for "malformed or missing required fields,
  bad date/time format, unknown foreign keys"; the required fields are \<open>guest_type_id\<close>,
  \<open>inviter_id\<close>, \<open>coming_date\<close> ("YYYY-MM-DD"), \<open>coming_time\<close> and \<open>stay_time\<close>
  ("HH:MM:SS"); \<open>comment\<close> is optional, of at most 255 characters. No check depends on
  the guest under update. \<open>users\<close> and \<open>guest_types\<close> are the keys of the two referenced
  tables.
\<close>

text \<open>
  The two documented formats: a date of the calendar written with four, two and two
  digits, and a time of day written with two digits in each of its three fields.
\<close>

definition yyyy_mm_dd :: "string \<Rightarrow> bool" where
  "yyyy_mm_dd s =
     (length s = 10 \<and> CHR '' '' \<notin> set s \<and>
      (case strptime_date s of Inl e \<Rightarrow> False | Inr d \<Rightarrow> True))"

fun hh_mm_ss :: "string \<Rightarrow> bool" where
  "hh_mm_ss [h1, h2, c1, m1, m2, c2, s1, s2] =
     (c1 = CHR '':'' \<and> c2 = CHR '':'' \<and>
      (case (two_digits h1 h2, two_digits m1 m2, two_digits s1 s2) of
         (Some h, Some m, Some sec) \<Rightarrow> h < 24 \<and> m < 60 \<and> sec < 60
       | _ \<Rightarrow> False))"
| "hh_mm_ss _ = False"

definition check_ref :: "int list \<Rightarrow> payload \<Rightarrow> string \<Rightarrow> errors" where
  "check_ref keys data k =
     (case data k of
        None \<Rightarrow> [(k, [''missing required field''])]
      | Some (JInt n) \<Rightarrow> if n \<in> set keys then [] else [(k, [''unknown foreign key''])]
      | Some _ \<Rightarrow> [(k, [''malformed field''])])"

definition check_date :: "payload \<Rightarrow> string \<Rightarrow> errors" where
  "check_date data k =
     (case data k of
        None \<Rightarrow> [(k, [''missing required field''])]
      | Some (JStr s) \<Rightarrow> if yyyy_mm_dd s then [] else [(k, [''bad date format''])]
      | Some _ \<Rightarrow> [(k, [''malformed field''])])"

definition check_time :: "payload \<Rightarrow> string \<Rightarrow> errors" where
  "check_time data k =
     (case data k of
        None \<Rightarrow> [(k, [''missing required field''])]
      | Some (JStr s) \<Rightarrow> if hh_mm_ss s then [] else [(k, [''bad time format''])]
      | Some _ \<Rightarrow> [(k, [''malformed field''])])"

definition check_comment :: "payload \<Rightarrow> errors" where
  "check_comment data =
     (case data ''comment'' of
        None \<Rightarrow> []
      | Some JNull \<Rightarrow> []
      | Some (JStr s) \<Rightarrow> if length s \<le> 255 then [] else [(''comment'', [''malformed field''])]
      | Some _ \<Rightarrow> [(''comment'', [''malformed field''])])"

definition guest_schema_validate ::
  "int list \<Rightarrow> int list \<Rightarrow> payload \<Rightarrow> int option \<Rightarrow> errors" where
  "guest_schema_validate users guest_types data existing_guest_id =
     check_ref guest_types data ''guest_type_id'' @
     check_ref users data ''inviter_id'' @
     check_date data ''coming_date'' @
     check_time data ''coming_time'' @
     check_time data ''stay_time'' @
     check_comment data"

section \<open>Failure of a call, and the running example\<close>

text \<open>
  A call fails when it leaves through an exception or answers with a status of 400 or
  above.
\<close>

definition is_failure :: "response result \<Rightarrow> bool" where
  "is_failure r = (case r of Inl e \<Rightarrow> True | Inr (b, code) \<Rightarrow> 400 \<le> code)"

text \<open>
  The example: users 7 and 8, one guest type 1. User 7 posts a guest that arrives on
  2024-03-10 at 23:00:00 and stays 02:30:00, under a payload that names user 99 as the
  inviter; later user 7 puts new times, 10:00:00 and 01:30:00.
\<close>

definition ex_validate :: "payload \<Rightarrow> int option \<Rightarrow> errors" where
  "ex_validate = guest_schema_validate [7, 8] [1]"

definition ex_body :: payload where
  "ex_body = [''guest_type_id'' \<mapsto> JInt 1, ''inviter_id'' \<mapsto> JInt 99,
              ''coming_date'' \<mapsto> JStr ''2024-03-10'', ''coming_time'' \<mapsto> JStr ''23:00:00'',
              ''stay_time'' \<mapsto> JStr ''02:30:00'', ''comment'' \<mapsto> JNull]"

definition ex_put :: payload where
  "ex_put = [''guest_type_id'' \<mapsto> JInt 1, ''inviter_id'' \<mapsto> JInt 7,
             ''coming_date'' \<mapsto> JStr ''2024-03-10'', ''coming_time'' \<mapsto> JStr ''10:00:00'',
             ''stay_time'' \<mapsto> JStr ''01:30:00'', ''comment'' \<mapsto> JNull]"

definition ex_guest :: guest where
  "ex_guest = \<lparr>id_g = Some 1, guest_type_id = 1, inviter_id = 7,
                coming_date = \<lparr>year = 2024, month = 3, day = 10\<rparr>,
                coming_time = time_hms 23 0 0,
                stay_time = Some (time_hms 2 30 0),
                exit_date = Some \<lparr>year = 2024, month = 3, day = 11\<rparr>,
                exit_time = Some (time_hms 1 30 0),
                comment = None\<rparr>"

definition ex_guest_put :: guest where
  "ex_guest_put = ex_guest\<lparr>coming_time := time_hms 10 0 0,
                            stay_time := Some (time_hms 1 30 0),
                            exit_date := Some \<lparr>year = 2024, month = 3, day = 10\<rparr>,
                            exit_time := Some (time_hms 11 30 0)\<rparr>"

definition ex_dict :: guest_dict where
  "ex_dict = \<lparr>d_id = Some 1, d_guest_type_id = 1, d_inviter_id = 7,
               d_coming_date = ''2024-03-10'', d_coming_time = ''23:00:00'',
               d_stay_time = ''02:30:00'', d_comment = None\<rparr>"

definition ex_dict_put :: guest_dict where
  "ex_dict_put = ex_dict\<lparr>d_coming_time := ''10:00:00'', d_stay_time := ''01:30:00''\<rparr>"

definition no_args :: query_args where
  "no_args = \<lparr>q_page = None, q_per_page = None, q_inviter_id = None, q_guest_type_id = None,
               q_start_date = None, q_end_date = None\<rparr>"

definition ex_store3 :: store where
  "ex_store3 = [ex_guest, ex_guest\<lparr>id_g := Some 2\<rparr>, ex_guest\<lparr>id_g := Some 3\<rparr>]"

section \<open>Dates and times\<close>

lemma char_eq_of_char: "(of_char c :: nat) = of_char c' \<Longrightarrow> c = c'"
  by (simp only: of_char_eq_iff)

lemma digit_char_digit_of:
  assumes "digit_of c = Some k"
  shows "digit_char k = c \<and> k < 10"
proof -
  from assms have n: "(of_char c :: nat) = 48 + k" and k: "k < 10"
    by (auto simp: digit_of_def Let_def split: if_splits)
  from k have "k = 0 \<or> k = 1 \<or> k = 2 \<or> k = 3 \<or> k = 4 \<or> k = 5 \<or> k = 6 \<or> k = 7
      \<or> k = 8 \<or> k = 9" by arith
  then have "c = ''0123456789'' ! k"
    using n by (auto intro!: char_eq_of_char)
  with k show ?thesis by (simp add: digit_char_def)
qed

lemma pad2_two_digits: "two_digits a b = Some n \<Longrightarrow> pad2 n = [a, b]"
  by (auto simp: two_digits_def pad2_def split: option.splits dest!: digit_char_digit_of)

text \<open>A digit is none of the marks the parser of times looks for.\<close>

lemma digit_of_not_mark:
  assumes "digit_of c = Some k"
  shows "c \<noteq> CHR ''T''" "no_tz_char c" "c \<noteq> CHR '':''" "c \<noteq> NUL"
  using assms
  by (auto simp: digit_of_def no_tz_char_def is_tz_char_def NUL_def Let_def split: if_splits)

lemma two_digits_not_mark:
  assumes "two_digits a b = Some n"
  shows "a \<noteq> CHR ''T''" "no_tz_char a" "no_tz_char b"
  using assms
  by (auto simp: two_digits_def split: option.splits dest: digit_of_not_mark)

text \<open>
  A time written as \<open>HH:MM:SS\<close> is parsed into its three fields, and formatting them
  gives the string back.
\<close>

lemma time_fromisoformat_hms:
  assumes "two_digits h1 h2 = Some h" "two_digits m1 m2 = Some m" "two_digits s1 s2 = Some sec"
    and "h < 24" "m < 60" "sec < 60"
  shows "time_fromisoformat [h1, h2, CHR '':'', m1, m2, CHR '':'', s1, s2] = Inr (time_hms h m sec)"
proof -
  let ?s = "[h1, h2, CHR '':'', m1, m2, CHR '':'', s1, s2]"
  have c: "no_tz_char CHR '':''" by (simp add: no_tz_char_def is_tz_char_def)
  note n = two_digits_not_mark [OF assms(1)] two_digits_not_mark(2,3) [OF assms(2)]
    two_digits_not_mark(2,3) [OF assms(3)]
  have p: "parse_hh_mm_ss_ff ?s NUL = Some ((h, m, sec, 0), False)"
    using assms(1-3) by (simp add: parse_hh_mm_ss_ff_def after_digits_def)
  show ?thesis
    using n c assms(4-6)
    by (simp add: time_fromisoformat_def p tzinfo_of_def new_time_def time_hms_def)
qed

lemma time_strftime_hms:
  assumes "two_digits h1 h2 = Some h" "two_digits m1 m2 = Some m" "two_digits s1 s2 = Some sec"
  shows "time_strftime (time_hms h m sec) = [h1, h2, CHR '':'', m1, m2, CHR '':'', s1, s2]"
  using assms by (simp add: time_strftime_def time_hms_def pad2_two_digits)

lemma hh_mm_ss_parse:
  assumes "hh_mm_ss s"
  shows "\<exists>t. time_fromisoformat s = Inr t \<and> time_strftime t = s"
  using assms
proof (induction s rule: hh_mm_ss.induct)
  case (1 h1 h2 c1 m1 m2 c2 s1 s2)
  then obtain h m sec where
    f: "two_digits h1 h2 = Some h" "two_digits m1 m2 = Some m" "two_digits s1 s2 = Some sec"
    and r: "h < 24" "m < 60" "sec < 60" and c: "c1 = CHR '':''" "c2 = CHR '':''"
    by (auto split: option.splits)
  show ?case
    unfolding c using time_fromisoformat_hms [OF f r] time_strftime_hms [OF f] by simp
qed simp_all

lemma time_fromisoformat_valid: "time_fromisoformat s = Inr t \<Longrightarrow> valid_time t"
  by (auto simp: time_fromisoformat_def new_time_def valid_time_def Let_def
      split: option.splits if_splits prod.splits)

lemma strptime_date_valid: "strptime_date s = Inr d \<Longrightarrow> valid_date d"
  by (auto simp: strptime_date_def Let_def split: list.splits if_splits option.splits)

subsection \<open>The day after a date is the next day number\<close>

lemma div_succ_int:
  fixes p k :: int
  assumes "0 < k"
  shows "(p + 1) div k = p div k + (if (p + 1) mod k = 0 then 1 else 0)"
proof (cases "(p + 1) mod k = 0")
  case True
  then obtain q where q: "p + 1 = k * q" by (auto simp: mod_eq_0_iff_dvd)
  then have p: "p = k * (q - 1) + (k - 1)" by (simp add: algebra_simps)
  have "(p + 1) div k = q" using q assms by simp
  moreover have "p div k = q - 1"
    using assms by (subst p) simp
  ultimately show ?thesis using True by simp
next
  case False
  define r where "r = p mod k"
  have r: "0 \<le> r" "r < k" using assms by (simp_all add: r_def)
  have "r + 1 \<noteq> k"
  proof
    assume "r + 1 = k"
    then have "(p + 1) mod k = 0"
      by (metis r_def mod_add_left_eq mod_self)
    with False show False by simp
  qed
  with r have r1: "r + 1 < k" by simp
  have "p + 1 = k * (p div k) + (r + 1)" by (simp add: r_def)
  then have "(p + 1) div k = p div k"
    using r r1 assms
    by (metis add.commute add_nonneg_nonneg div_mult_self2 div_pos_pos_trivial less_irrefl
        zero_less_one_class.zero_le_one add_0)
  with False show ?thesis by simp
qed

lemma days_before_year_Suc:
  "days_before_year (Suc y) = days_before_year y + (if is_leap y then 366 else 365)"
proof -
  define p where "p = int y - 1"
  have m: "int y mod 4 = int (y mod 4)" "int y mod 100 = int (y mod 100)"
    "int y mod 400 = int (y mod 400)"
    by (simp_all add: zmod_int)
  have "days_before_year (Suc y)
          = 365 * (p + 1) + (p + 1) div 4 - (p + 1) div 100 + (p + 1) div 400"
    by (simp add: days_before_year_def p_def Let_def)
  also have "\<dots> = days_before_year y + 365 + (if (p + 1) mod 4 = 0 then 1 else 0)
                 - (if (p + 1) mod 100 = 0 then 1 else 0) + (if (p + 1) mod 400 = 0 then 1 else 0)"
    by (simp add: div_succ_int [of 4 p] div_succ_int [of 100 p] div_succ_int [of 400 p]
        days_before_year_def p_def [symmetric] Let_def)
  also have "p + 1 = int y" by (simp add: p_def)
  finally have e: "days_before_year (Suc y)
      = days_before_year y + 365 + (if int y mod 4 = 0 then 1 else 0)
          - (if int y mod 100 = 0 then 1 else 0) + (if int y mod 400 = 0 then 1 else 0)" .
  have d: "y mod 400 = 0 \<Longrightarrow> y mod 100 = 0" "y mod 100 = 0 \<Longrightarrow> y mod 4 = 0"
    by (auto simp: mod_eq_0_iff_dvd elim: dvd_trans [rotated])
  show ?thesis
    unfolding e m is_leap_def using d by auto
qed

lemma days_before_month_Suc:
  "Suc 0 \<le> m \<Longrightarrow> days_before_month y (Suc m) = days_before_month y m + days_in_month y m"
  by (simp add: days_before_month_def)

lemma days_before_month_12:
  "days_before_month y 12 + 31 = (if is_leap y then 366 else 365)"
proof -
  have "[1..<12] = [1,2,3,4,5,6,7,8,9,10,11::nat]" by (simp add: upt_rec)
  then show ?thesis by (simp add: days_before_month_def days_in_month_def)
qed

lemma day_number_next_day:
  assumes "valid_date d"
  shows "day_number (next_day d) = day_number d + 1"
proof -
  let ?n = "days_in_month (year d) (month d)"
  from assms have v: "1 \<le> month d" "month d \<le> 12" "day d \<le> ?n"
    by (simp_all add: valid_date_def)
  show ?thesis
  proof (cases "day d < ?n")
    case True
    then show ?thesis by (simp add: next_day_def day_number_def)
  next
    case False
    with v have full: "day d = ?n" by simp
    show ?thesis
    proof (cases "month d < 12")
      case True
      with full v show ?thesis
        by (simp add: next_day_def day_number_def days_before_month_Suc)
    next
      case False
      with v have m: "month d = 12" by simp
      have "days_in_month (year d) 12 = 31" by (simp add: days_in_month_def)
      with full m have "int (days_before_month (year d) (month d)) + int (day d)
          = (if is_leap (year d) then 366 else 365)"
        using days_before_month_12 [of "year d"] by (simp split: if_splits)
      moreover have "days_before_month (year d + 1) 1 = 0" by (simp add: days_before_month_def)
      ultimately show ?thesis using full m
        by (simp add: next_day_def day_number_def days_before_year_Suc)
    qed
  qed
qed

lemma valid_date_next_day: "valid_date d \<Longrightarrow> valid_date (next_day d)"
  by (auto simp: valid_date_def next_day_def days_in_month_def)

subsection \<open>Seconds of a time of day\<close>

lemma seconds_of_time_of_seconds: "seconds_of (time_of_seconds n) = n"
proof -
  have a: "n mod 3600 mod 60 = n mod 60"
    by (rule mod_mod_cancel) simp
  have b: "n mod 3600 div 60 * 60 + n mod 3600 mod 60 = n mod 3600"
    by (rule div_mult_mod_eq)
  have c: "n div 3600 * 3600 + n mod 3600 = n"
    by (rule div_mult_mod_eq)
  have "seconds_of (time_of_seconds n)
          = n div 3600 * 3600 + (n mod 3600 div 60 * 60 + n mod 3600 mod 60)"
    by (simp add: seconds_of_def time_of_seconds_def a)
  also have "\<dots> = n div 3600 * 3600 + n mod 3600" by (simp only: b)
  also have "\<dots> = n" by (rule c)
  finally show ?thesis .
qed

lemma valid_time_of_seconds:
  assumes "n < 86400"
  shows "valid_time (time_of_seconds n)"
proof -
  have "n div 3600 < 24" using assms by (simp add: less_mult_imp_div_less)
  moreover have "n mod 3600 div 60 < 60"
    by (simp add: less_mult_imp_div_less)
  ultimately show ?thesis by (simp add: valid_time_def time_of_seconds_def)
qed

lemma seconds_of_bound: "valid_time t \<Longrightarrow> seconds_of t < 86400"
  by (simp add: valid_time_def seconds_of_def)

text \<open>
  The exit date and time that \<open>set_exit_time\<close> stores are a date of the calendar and a
  time of day, and name the instant of the arrival plus the duration of the stay.
\<close>

lemma set_exit_time_instant:
  assumes "valid_date cd" "valid_time ct" "valid_time sd"
    and "set_exit_time g cd ct sd = g'"
  shows "\<exists>ed et. exit_date g' = Some ed \<and> exit_time g' = Some et \<and>
           valid_date ed \<and> valid_time et \<and>
           instant ed et = instant cd ct + int (seconds_of sd)"
proof -
  let ?total = "seconds_of ct + seconds_of sd"
  have lt: "?total < 2 * 86400"
    using seconds_of_bound [OF assms(2)] seconds_of_bound [OF assms(3)] by simp
  have vt: "valid_time (time_of_seconds (?total mod 86400))"
    by (rule valid_time_of_seconds) simp
  show ?thesis
  proof (cases "86400 \<le> ?total")
    case True
    with lt have m: "?total mod 86400 = ?total - 86400"
      by (simp add: mod_if le_mod_geq)
    have "instant (next_day cd) (time_of_seconds (?total mod 86400))
            = instant cd ct + int (seconds_of sd)"
      using True
      by (simp add: instant_def day_number_next_day [OF assms(1)] seconds_of_time_of_seconds m
          algebra_simps)
    with vt show ?thesis
      using True assms(1,4) by (auto simp: set_exit_time_def Let_def valid_date_next_day)
  next
    case False
    then have m: "?total mod 86400 = ?total" by simp
    have "instant cd (time_of_seconds (?total mod 86400)) = instant cd ct + int (seconds_of sd)"
      by (simp add: instant_def seconds_of_time_of_seconds m)
    with vt show ?thesis
      using False assms(1,4) by (auto simp: set_exit_time_def Let_def)
  qed
qed

section \<open>The routes: what a successful call did\<close>

lemma bind_r_Inr: "bind_r m f = Inr y \<longleftrightarrow> (\<exists>x. m = Inr x \<and> f x = Inr y)"
  by (cases m) (simp_all add: bind_r_def)

lemma date_item_valid: "date_item data k = Inr d \<Longrightarrow> valid_date d"
  by (auto simp: date_item_def bind_r_Inr dest: strptime_date_valid)

lemma time_item_valid: "time_item data k = Inr t \<Longrightarrow> valid_time t"
  by (auto simp: time_item_def bind_r_Inr dest: time_fromisoformat_valid)

lemma time_item_str:
  assumes "time_item data k = Inr t" "data k = Some (JStr s)" "hh_mm_ss s"
  shows "time_strftime t = s"
proof -
  from assms(1,2) have "time_fromisoformat s = Inr t"
    by (simp add: time_item_def bind_r_def get_item_def as_str_def)
  with hh_mm_ss_parse [OF assms(3)] show ?thesis by auto
qed

lemma int_item_val: "int_item data k = Inr n \<Longrightarrow> data k = Some (JInt n)"
  by (auto simp: int_item_def bind_r_Inr get_item_def as_int_def split: option.splits json.splits)

lemma item_upd_other:
  "k \<noteq> k' \<Longrightarrow> date_item (data(k' \<mapsto> v)) k = date_item data k"
  "k \<noteq> k' \<Longrightarrow> time_item (data(k' \<mapsto> v)) k = time_item data k"
  by (simp_all add: date_item_def time_item_def get_item_def)

lemma new_guest_of_Inr:
  assumes "new_guest_of data = Inr g"
  shows "\<exists>cd ct sd gt iv cm.
           date_item data ''coming_date'' = Inr cd \<and> time_item data ''coming_time'' = Inr ct \<and>
           time_item data ''stay_time'' = Inr sd \<and> int_item data ''guest_type_id'' = Inr gt \<and>
           int_item data ''inviter_id'' = Inr iv \<and> opt_str_item data ''comment'' = Inr cm \<and>
           g = set_exit_time (Guest_init gt iv cd ct cm) cd ct sd"
  using assms unfolding new_guest_of_def bind_r_Inr by blast

lemma updated_guest_of_Inr:
  assumes "updated_guest_of g0 data = Inr g"
  shows "\<exists>cd ct sd gt iv cm.
           date_item data ''coming_date'' = Inr cd \<and> time_item data ''coming_time'' = Inr ct \<and>
           time_item data ''stay_time'' = Inr sd \<and> int_item data ''guest_type_id'' = Inr gt \<and>
           int_item data ''inviter_id'' = Inr iv \<and> opt_str_item data ''comment'' = Inr cm \<and>
           g = (set_exit_time
                  (g0\<lparr>guest_type_id := gt, inviter_id := iv, coming_date := cd, coming_time := ct\<rparr>)
                  cd ct sd)\<lparr>comment := cm\<rparr>"
  using assms unfolding updated_guest_of_def bind_r_Inr Let_def by force

lemma exit_fields:
  assumes "date_item data ''coming_date'' = Inr cd" "time_item data ''coming_time'' = Inr ct"
    "time_item data ''stay_time'' = Inr sd"
  shows "\<exists>ed et. exit_date (set_exit_time g cd ct sd) = Some ed \<and>
            exit_time (set_exit_time g cd ct sd) = Some et \<and> valid_date ed \<and> valid_time et \<and>
            instant ed et = instant cd ct + int (seconds_of sd)"
  using set_exit_time_instant [OF date_item_valid [OF assms(1)] time_item_valid [OF assms(2)]
      time_item_valid [OF assms(3)] refl] .

lemma session_get_Some: "session_get st i = Some g \<Longrightarrow> id_g g = Some i \<and> g \<in> set st"
  by (auto simp: session_get_def find_Some_iff)

lemma session_get_replace:
  "session_get st i = Some g \<Longrightarrow> id_g g' = Some i \<Longrightarrow>
   session_get (session_replace st i g') i = Some g'"
  by (induction st) (auto simp: session_get_def)

lemma create_guest_success:
  assumes "create_guest validate identity body st = (Inr (GuestBody d, 201), st')"
  shows "\<exists>g0 g. new_guest_of (body(''inviter_id'' \<mapsto> JInt identity)) = Inr g0 \<and>
           g = g0\<lparr>id_g := Some (max_id st + 1)\<rparr> \<and> st' = st @ [g] \<and> to_dict g = Inr d"
  using assms
  by (auto simp: create_guest_def Let_def session_add_def split: if_splits sum.splits)

lemma update_guest_success:
  assumes "update_guest validate identity guest_id data st = (Inr (GuestBody d, 200), st')"
  shows "\<exists>g0 g. session_get st guest_id = Some g0 \<and> identity = inviter_id g0 \<and>
           updated_guest_of g0 data = Inr g \<and> st' = session_replace st guest_id g \<and>
           to_dict g = Inr d"
  using assms
  by (auto simp: update_guest_def Let_def split: if_splits sum.splits option.splits)

lemma create_guest_validated:
  assumes "create_guest validate identity body st = (Inr (GuestBody d, 201), st')"
  shows "validate (body(''inviter_id'' \<mapsto> JInt identity)) None = []"
  using assms
  by (auto simp: create_guest_def Let_def split: if_splits sum.splits prod.splits)

lemma update_guest_validated:
  assumes "update_guest validate identity guest_id data st = (Inr (GuestBody d, 200), st')"
  shows "validate data (Some guest_id) = []"
  using assms
  by (auto simp: update_guest_def Let_def split: if_splits sum.splits option.splits)

text \<open>A payload that the schema accepts holds its \<open>stay_time\<close> in the documented format.\<close>

lemma schema_stay_time:
  assumes "guest_schema_validate users guest_types data existing_guest_id = []"
  shows "\<exists>s. data ''stay_time'' = Some (JStr s) \<and> hh_mm_ss s"
proof -
  from assms have "check_time data ''stay_time'' = []"
    by (simp add: guest_schema_validate_def)
  then show ?thesis
    by (auto simp: check_time_def split: option.splits json.splits if_splits)
qed

subsection \<open>A failed call changed nothing\<close>

lemma create_guest_failure:
  assumes "is_failure (fst (create_guest validate identity body st))"
  shows "snd (create_guest validate identity body st) = st"
proof (cases "new_guest_of (body(''inviter_id'' \<mapsto> JInt identity))")
  case (Inl e)
  then show ?thesis by (simp add: create_guest_def Let_def)
next
  case (Inr g0)
  from new_guest_of_Inr [OF Inr] obtain cd ct sd gt iv cm where
    g: "g0 = set_exit_time (Guest_init gt iv cd ct cm) cd ct sd" by blast
  have "\<exists>d. to_dict (g0\<lparr>id_g := Some (max_id st + 1)\<rparr>) = Inr d"
    by (simp add: g to_dict_def set_exit_time_def Let_def)
  then show ?thesis using assms Inr
    by (auto simp: create_guest_def Let_def session_add_def is_failure_def split: if_splits)
qed

lemma update_guest_failure:
  assumes "is_failure (fst (update_guest validate identity guest_id data st))"
  shows "snd (update_guest validate identity guest_id data st) = st"
proof (cases "session_get st guest_id")
  case None
  then show ?thesis by (simp add: update_guest_def)
next
  case (Some g0)
  show ?thesis
  proof (cases "updated_guest_of g0 data")
    case (Inl e)
    with Some show ?thesis by (simp add: update_guest_def Let_def)
  next
    case (Inr g)
    from updated_guest_of_Inr [OF Inr] have "\<exists>d. to_dict g = Inr d"
      by (auto simp: to_dict_def set_exit_time_def Let_def)
    then show ?thesis using assms Some Inr
      by (auto simp: update_guest_def Let_def is_failure_def split: if_splits)
  qed
qed

lemma delete_guest_failure:
  assumes "is_failure (fst (delete_guest identity guest_id st))"
  shows "snd (delete_guest identity guest_id st) = st"
  using assms
  by (auto simp: delete_guest_def is_failure_def split: option.splits if_splits)

subsection \<open>The list of guests\<close>

lemma less_zdiv_iff:
  fixes a b c :: int
  assumes "0 < c"
  shows "a < b div c \<longleftrightarrow> (a + 1) * c \<le> b"
proof
  assume "a < b div c"
  then have "a + 1 \<le> b div c" by simp
  then have "(a + 1) * c \<le> (b div c) * c" using assms by (simp add: mult_right_mono)
  also have "\<dots> \<le> b" using assms
    by (metis mult.commute pos_mod_sign add_le_cancel_left mult_div_mod_eq add.right_neutral)
  finally show "(a + 1) * c \<le> b" .
next
  assume "(a + 1) * c \<le> b"
  then have "((a + 1) * c) div c \<le> b div c" using assms by (rule zdiv_mono1)
  then show "a < b div c" using assms by simp
qed

lemma has_next_iff:
  assumes "1 \<le> page p" "1 \<le> per_page p"
  shows "has_next p \<longleftrightarrow> page p * per_page p < int (total p)"
proof (cases "total p = 0")
  case True
  from assms have "0 \<le> page p" "0 \<le> page p * per_page p" by simp_all
  then show ?thesis using True by (simp add: has_next_def pages_def)
next
  case False
  have "page p < (int (total p) + per_page p - 1) div per_page p
        \<longleftrightarrow> (page p + 1) * per_page p \<le> int (total p) + per_page p - 1"
    using assms by (intro less_zdiv_iff) simp
  also have "\<dots> \<longleftrightarrow> page p * per_page p < int (total p)"
    by (simp add: algebra_simps) linarith
  finally show ?thesis using False by (simp add: has_next_def pages_def)
qed

lemma paginate_Inr:
  assumes "paginate m sel n pp0 st = Inr p"
  shows "1 \<le> n \<and> 1 \<le> effective_per_page m pp0 \<and> page p = n \<and>
         per_page p = effective_per_page m pp0 \<and> total p = length (filter sel st)"
  using assms by (auto simp: paginate_def Let_def split: if_splits)

lemma get_guests_Inr:
  assumes "get_guests m args st = Inr r"
  shows "\<exists>sel p out. select_of args = Inr sel \<and>
           paginate m sel (case q_page args of None \<Rightarrow> 1 | Some n \<Rightarrow> n)
             (case q_per_page args of None \<Rightarrow> 10 | Some n \<Rightarrow> n) st = Inr p \<and>
           to_dicts (items p) = Inr out \<and>
           r = (GuestList out (total p) (if has_prev p then prev_num p else None)
                  (if has_next p then next_num p else None), 200)"
  using assms unfolding get_guests_def Let_def bind_r_Inr by blast

lemma select_of_page_indep:
  "select_of (args\<lparr>q_page := a, q_per_page := b\<rparr>) = select_of args"
  by (simp add: select_of_def Let_def)

section \<open>The running example, evaluated\<close>

lemma parse_time_example:
  "time_fromisoformat ''23:00:00'' = Inr (time_hms 23 0 0)"
  "time_fromisoformat ''02:30:00'' = Inr (time_hms 2 30 0)"
  "time_fromisoformat ''10:00:00'' = Inr (time_hms 10 0 0)"
  "time_fromisoformat ''01:30:00'' = Inr (time_hms 1 30 0)"
  by (rule time_fromisoformat_hms; simp add: two_digits_def digit_of_def)+

lemmas py_eval = strptime_date_def number_of_def day_field_def digit_of_def valid_date_def
  days_in_month_def is_leap_def two_digits_def valid_time_def time_strftime_def date_strftime_def
  pad2_def decimal.simps digit_char_def date_le_def seconds_of_def time_of_seconds_def
  next_day_def time_hms_def yyyy_mm_dd_def parse_time_example

lemmas item_eval = date_item_def time_item_def int_item_def opt_str_item_def get_item_def
  as_str_def as_int_def as_opt_str_def bind_r_def

lemmas schema_eval = ex_validate_def guest_schema_validate_def check_ref_def check_date_def
  check_time_def check_comment_def

lemmas list_eval = get_guests_def select_of_def paginate_def no_args_def truthy_int_def
  truthy_str_def strptime_arg_def effective_per_page_def has_prev_def has_next_def prev_num_def
  next_num_def pages_def where_clause_def Guest_start_date_def bind_r_def Let_def

lemma to_dict_example:
  "to_dict ex_guest = Inr ex_dict"
  "to_dict ex_guest_put = Inr ex_dict_put"
  "to_dict (ex_guest\<lparr>id_g := Some 2\<rparr>) = Inr (ex_dict\<lparr>d_id := Some 2\<rparr>)"
  "to_dict (ex_guest\<lparr>id_g := Some 3\<rparr>) = Inr (ex_dict\<lparr>d_id := Some 3\<rparr>)"
  "to_dict (ex_guest\<lparr>inviter_id := 8\<rparr>) = Inr (ex_dict\<lparr>d_inviter_id := 8\<rparr>)"
  by (simp_all add: to_dict_def ex_guest_def ex_guest_put_def ex_dict_def ex_dict_put_def py_eval)

lemma session_get_example:
  "session_get [ex_guest] 1 = Some ex_guest" "session_get [ex_guest] 2 = None"
  by (simp_all add: session_get_def ex_guest_def)

lemma ex_guest_fields: "inviter_id ex_guest = 7" "id_g ex_guest = Some 1"
  by (simp_all add: ex_guest_def)

lemma create_example:
  "create_guest ex_validate 7 ex_body [] = (Inr (GuestBody ex_dict, 201), [ex_guest])"
proof -
  have v: "ex_validate (ex_body(''inviter_id'' \<mapsto> JInt 7)) None = []"
    by (simp add: schema_eval ex_body_def py_eval)
  have n: "new_guest_of (ex_body(''inviter_id'' \<mapsto> JInt 7)) = Inr (ex_guest\<lparr>id_g := None\<rparr>)"
    by (simp add: new_guest_of_def item_eval ex_body_def py_eval set_exit_time_def Guest_init_def
        ex_guest_def Let_def)
  have "(ex_guest\<lparr>id_g := None\<rparr>)\<lparr>id_g := Some (max_id [] + 1)\<rparr> = ex_guest"
    by (simp add: ex_guest_def)
  then show ?thesis
    by (simp add: create_guest_def v n session_add_def to_dict_example)
qed

lemma update_put_example:
  "update_guest ex_validate 7 1 ex_put [ex_guest] = (Inr (GuestBody ex_dict_put, 200), [ex_guest_put])"
proof -
  have v: "ex_validate ex_put (Some 1) = []"
    by (simp add: schema_eval ex_put_def py_eval)
  have u: "updated_guest_of ex_guest ex_put = Inr ex_guest_put"
    by (simp add: updated_guest_of_def item_eval ex_put_def py_eval set_exit_time_def
        ex_guest_def ex_guest_put_def Let_def)
  show ?thesis
    by (simp add: update_guest_def session_get_example v u to_dict_example ex_guest_fields)
qed

lemma create_invalid_example:
  "create_guest ex_validate 7 Map.empty [ex_guest] =
     (Inr (Errors [(''guest_type_id'', [''missing required field'']),
                   (''coming_date'', [''missing required field'']),
                   (''coming_time'', [''missing required field'']),
                   (''stay_time'', [''missing required field''])], 400), [ex_guest])"
  by (simp add: create_guest_def schema_eval)

lemma update_forbidden_example:
  "update_guest ex_validate 8 1 ex_put [ex_guest] = (Inr (ErrorMsg ''Access denied'', 403), [ex_guest])"
  by (simp add: update_guest_def session_get_example ex_guest_fields)

lemma delete_missing_example:
  "delete_guest 7 2 [ex_guest] = (Inr (ErrorMsg ''Guest not found'', 404), [ex_guest])"
  by (simp add: delete_guest_def session_get_example)

lemma list_page_example:
  "get_guests None (no_args\<lparr>q_page := Some 2, q_per_page := Some 1\<rparr>) ex_store3
     = Inr (GuestList [ex_dict\<lparr>d_id := Some 2\<rparr>] 3 (Some 1) (Some 3), 200)"
  by (simp add: list_eval ex_store3_def to_dict_example)

lemma list_all_example:
  "get_guests None no_args [ex_guest] = Inr (GuestList [ex_dict] 1 None None, 200)"
  by (simp add: list_eval to_dict_example)

section \<open>The claims\<close>

text \<open>
  C1. After a successful create or update, the stored guest carries an exit date and an
  exit time of day whose instant is the instant of the arrival (the parsed \<open>coming_date\<close>
  and \<open>coming_time\<close> of the payload) plus the duration \<open>stay_time\<close> of the payload; the
  exit time is a time of day below 24:00:00, so a sum past midnight is carried into the
  date. In the example, 23:00:00 plus 02:30:00 is 01:30:00 on the next date.
\<close>

theorem exit_instant_is_arrival_plus_stay:
  "(create_guest validate identity body st = (Inr (GuestBody d, 201), st') \<longrightarrow>
      (\<exists>g sd ed et. st' = st @ [g] \<and>
         date_item body ''coming_date'' = Inr (coming_date g) \<and>
         time_item body ''coming_time'' = Inr (coming_time g) \<and>
         time_item body ''stay_time'' = Inr sd \<and>
         exit_date g = Some ed \<and> exit_time g = Some et \<and> valid_date ed \<and> valid_time et \<and>
         instant ed et = instant (coming_date g) (coming_time g) + int (seconds_of sd))) \<and>
   (update_guest validate identity guest_id data st = (Inr (GuestBody d, 200), st') \<longrightarrow>
      (\<exists>g sd ed et. session_get st' guest_id = Some g \<and>
         date_item data ''coming_date'' = Inr (coming_date g) \<and>
         time_item data ''coming_time'' = Inr (coming_time g) \<and>
         time_item data ''stay_time'' = Inr sd \<and>
         exit_date g = Some ed \<and> exit_time g = Some et \<and> valid_date ed \<and> valid_time et \<and>
         instant ed et = instant (coming_date g) (coming_time g) + int (seconds_of sd)))"
proof (intro conjI impI)
  assume "create_guest validate identity body st = (Inr (GuestBody d, 201), st')"
  from create_guest_success [OF this] obtain g0 where
    g0: "new_guest_of (body(''inviter_id'' \<mapsto> JInt identity)) = Inr g0"
    and st': "st' = st @ [g0\<lparr>id_g := Some (max_id st + 1)\<rparr>]" by blast
  from new_guest_of_Inr [OF g0] obtain cd ct sd gt iv cm where
    f: "date_item body ''coming_date'' = Inr cd" "time_item body ''coming_time'' = Inr ct"
      "time_item body ''stay_time'' = Inr sd"
    and g: "g0 = set_exit_time (Guest_init gt iv cd ct cm) cd ct sd"
    by (auto simp: item_upd_other)
  from exit_fields [OF f, of "Guest_init gt iv cd ct cm"] obtain ed et where
    "exit_date g0 = Some ed" "exit_time g0 = Some et" "valid_date ed" "valid_time et"
    "instant ed et = instant cd ct + int (seconds_of sd)"
    unfolding g by blast
  moreover have "coming_date g0 = cd" "coming_time g0 = ct"
    by (simp_all add: g set_exit_time_def Guest_init_def Let_def)
  ultimately show "\<exists>g sd ed et. st' = st @ [g] \<and>
         date_item body ''coming_date'' = Inr (coming_date g) \<and>
         time_item body ''coming_time'' = Inr (coming_time g) \<and>
         time_item body ''stay_time'' = Inr sd \<and>
         exit_date g = Some ed \<and> exit_time g = Some et \<and> valid_date ed \<and> valid_time et \<and>
         instant ed et = instant (coming_date g) (coming_time g) + int (seconds_of sd)"
    using f st'
    by (intro exI [of _ "g0\<lparr>id_g := Some (max_id st + 1)\<rparr>"] exI [of _ sd] exI [of _ ed]
        exI [of _ et]) simp
next
  assume "update_guest validate identity guest_id data st = (Inr (GuestBody d, 200), st')"
  from update_guest_success [OF this] obtain g0 g where
    g0: "session_get st guest_id = Some g0"
    and g: "updated_guest_of g0 data = Inr g"
    and st': "st' = session_replace st guest_id g" by blast
  from updated_guest_of_Inr [OF g] obtain cd ct sd gt iv cm where
    f: "date_item data ''coming_date'' = Inr cd" "time_item data ''coming_time'' = Inr ct"
      "time_item data ''stay_time'' = Inr sd"
    and ge: "g = (set_exit_time
                    (g0\<lparr>guest_type_id := gt, inviter_id := iv, coming_date := cd, coming_time := ct\<rparr>)
                    cd ct sd)\<lparr>comment := cm\<rparr>"
    by blast
  let ?h = "g0\<lparr>guest_type_id := gt, inviter_id := iv, coming_date := cd, coming_time := ct\<rparr>"
  from exit_fields [OF f, of ?h] obtain ed et where
    "exit_date g = Some ed" "exit_time g = Some et" "valid_date ed" "valid_time et"
    "instant ed et = instant cd ct + int (seconds_of sd)"
    unfolding ge by auto
  moreover have c: "coming_date g = cd" "coming_time g = ct" "id_g g = id_g g0"
    by (simp_all add: ge set_exit_time_def Let_def)
  moreover have "session_get st' guest_id = Some g"
    unfolding st' using g0 session_get_Some [OF g0] c(3)
    by (intro session_get_replace) simp_all
  ultimately show "\<exists>g sd ed et. session_get st' guest_id = Some g \<and>
         date_item data ''coming_date'' = Inr (coming_date g) \<and>
         time_item data ''coming_time'' = Inr (coming_time g) \<and>
         time_item data ''stay_time'' = Inr sd \<and>
         exit_date g = Some ed \<and> exit_time g = Some et \<and> valid_date ed \<and> valid_time et \<and>
         instant ed et = instant (coming_date g) (coming_time g) + int (seconds_of sd)"
    using f by (intro exI [of _ g] exI [of _ sd] exI [of _ ed] exI [of _ et]) simp
qed

theorem exit_instant_is_arrival_plus_stay_witness:
  "create_guest ex_validate 7 ex_body [] = (Inr (GuestBody ex_dict, 201), [ex_guest]) \<and>
   instant \<lparr>year = 2024, month = 3, day = 11\<rparr> (time_hms 1 30 0)
     = instant \<lparr>year = 2024, month = 3, day = 10\<rparr> (time_hms 23 0 0)
       + int (seconds_of (time_hms 2 30 0)) \<and>
   update_guest ex_validate 7 1 ex_put [ex_guest] = (Inr (GuestBody ex_dict_put, 200), [ex_guest_put]) \<and>
   instant \<lparr>year = 2024, month = 3, day = 10\<rparr> (time_hms 11 30 0)
     = instant \<lparr>year = 2024, month = 3, day = 10\<rparr> (time_hms 10 0 0)
       + int (seconds_of (time_hms 1 30 0))"
proof -
  note t = exit_instant_is_arrival_plus_stay
  from t [of ex_validate 7 ex_body "[]" ex_dict "[ex_guest]", THEN conjunct1, rule_format,
      OF create_example]
  obtain g sd ed et where
    a: "[ex_guest] = [] @ [g]" "time_item ex_body ''stay_time'' = Inr sd"
      "exit_date g = Some ed" "exit_time g = Some et"
      "instant ed et = instant (coming_date g) (coming_time g) + int (seconds_of sd)"
    by blast
  from a(1) have g: "g = ex_guest" by simp
  have "time_item ex_body ''stay_time'' = Inr (time_hms 2 30 0)"
    by (simp add: item_eval ex_body_def py_eval)
  with a(2) have sd: "sd = (time_hms 2 30 0)" by simp
  from a(3,4) have "ed = \<lparr>year = 2024, month = 3, day = 11\<rparr>"
    "et = (time_hms 1 30 0)"
    by (simp_all add: g ex_guest_def)
  with a(5) have 1: "instant \<lparr>year = 2024, month = 3, day = 11\<rparr> (time_hms 1 30 0)
     = instant \<lparr>year = 2024, month = 3, day = 10\<rparr> (time_hms 23 0 0)
       + int (seconds_of (time_hms 2 30 0))"
    by (simp add: g sd ex_guest_def)
  from t [of ex_validate 7 _ "[ex_guest]" ex_dict_put "[ex_guest_put]" 1 ex_put,
      THEN conjunct2, rule_format, OF update_put_example]
  obtain g' sd' ed' et' where
    b: "session_get [ex_guest_put] 1 = Some g'" "time_item ex_put ''stay_time'' = Inr sd'"
      "exit_date g' = Some ed'" "exit_time g' = Some et'"
      "instant ed' et' = instant (coming_date g') (coming_time g') + int (seconds_of sd')"
    by blast
  from b(1) have g': "g' = ex_guest_put"
    by (simp add: session_get_def ex_guest_put_def ex_guest_def)
  have "time_item ex_put ''stay_time'' = Inr (time_hms 1 30 0)"
    by (simp add: item_eval ex_put_def py_eval)
  with b(2) have sd': "sd' = (time_hms 1 30 0)" by simp
  from b(3,4) have "ed' = \<lparr>year = 2024, month = 3, day = 10\<rparr>"
    "et' = (time_hms 11 30 0)"
    by (simp_all add: g' ex_guest_put_def ex_guest_def)
  with b(5) have 2: "instant \<lparr>year = 2024, month = 3, day = 10\<rparr> (time_hms 11 30 0)
     = instant \<lparr>year = 2024, month = 3, day = 10\<rparr> (time_hms 10 0 0)
       + int (seconds_of (time_hms 1 30 0))"
    by (simp add: g' sd' ex_guest_put_def ex_guest_def)
  from create_example 1 update_put_example 2 show ?thesis by blast
qed

text \<open>
  C2. After a successful create, the new row of the store, and the guest returned, have
  the caller's identity as \<open>inviter_id\<close>, whatever the payload holds under \<open>inviter_id\<close>.
  In the example the payload names user 99 and the caller is user 7.
\<close>

theorem create_guest_inviter_is_caller:
  assumes "create_guest validate identity body st = (Inr (GuestBody d, 201), st')"
  shows "\<exists>g. st' = st @ [g] \<and> inviter_id g = identity \<and> d_inviter_id d = identity"
proof -
  from create_guest_success [OF assms] obtain g0 where
    g0: "new_guest_of (body(''inviter_id'' \<mapsto> JInt identity)) = Inr g0"
    and st': "st' = st @ [g0\<lparr>id_g := Some (max_id st + 1)\<rparr>]"
    and d: "to_dict (g0\<lparr>id_g := Some (max_id st + 1)\<rparr>) = Inr d" by blast
  from new_guest_of_Inr [OF g0] obtain cd ct sd gt iv cm where
    iv: "int_item (body(''inviter_id'' \<mapsto> JInt identity)) ''inviter_id'' = Inr iv"
    and g: "g0 = set_exit_time (Guest_init gt iv cd ct cm) cd ct sd" by blast
  from int_item_val [OF iv] have "iv = identity" by simp
  with g have "inviter_id g0 = identity"
    by (simp add: set_exit_time_def Guest_init_def Let_def)
  moreover from this d have "d_inviter_id d = identity"
    by (auto simp: to_dict_def split: option.splits)
  ultimately show ?thesis using st' by simp
qed

theorem create_guest_inviter_is_caller_witness:
  "ex_body ''inviter_id'' = Some (JInt 99) \<and>
   create_guest ex_validate 7 ex_body [] = (Inr (GuestBody ex_dict, 201), [ex_guest]) \<and>
   inviter_id ex_guest = 7 \<and> d_inviter_id ex_dict = 7"
proof -
  from create_guest_inviter_is_caller [OF create_example]
  obtain g where "[ex_guest] = [] @ [g]" "inviter_id g = 7" "d_inviter_id ex_dict = 7"
    by blast
  then have "inviter_id ex_guest = 7" "d_inviter_id ex_dict = 7" by simp_all
  moreover have "ex_body ''inviter_id'' = Some (JInt 99)" by (simp add: ex_body_def)
  ultimately show ?thesis using create_example by blast
qed

text \<open>
  C3. The date filters of the list. With only \<open>end_date\<close> given, the guard of line 54
  tests \<open>start_date_str\<close>, so no date predicate is added and a guest that arrives after
  \<open>end_date\<close> is returned; with only \<open>start_date\<close> given, the same guard sends \<open>None\<close>
  to \<open>strptime\<close>, which raises. The example guest arrives on 2024-03-10.
\<close>

theorem end_date_alone_is_ignored:
  "get_guests None (no_args\<lparr>q_end_date := Some ''2024-01-01''\<rparr>) [ex_guest]
     = Inr (GuestList [ex_dict] 1 None None, 200) \<and>
   get_guests None (no_args\<lparr>q_start_date := Some ''2024-01-01''\<rparr>) [ex_guest] = Inl TypeError"
  by (simp add: list_eval to_dict_example py_eval)

text \<open>
  The numbers of the neighbouring pages, and the total, in every answer of the list:
  \<open>prev_page\<close> is null on page 1 and the page before otherwise; \<open>next_page\<close> is null
  when no selected row lies beyond the page and the page after otherwise; the total is
  the number of rows that the statement of the route selects.
\<close>

lemma pagination_of_selected_rows:
  assumes "get_guests m args st = Inr (GuestList out tot prv nxt, code)"
  shows "(let n = (case q_page args of None \<Rightarrow> 1 | Some k \<Rightarrow> k);
              pp = effective_per_page m (case q_per_page args of None \<Rightarrow> 10 | Some k \<Rightarrow> k)
          in prv = (if n = 1 then None else Some (n - 1)) \<and>
             nxt = (if int tot \<le> n * pp then None else Some (n + 1)) \<and>
             (\<exists>sel. select_of args = Inr sel \<and> tot = length (filter sel st)))"
proof -
  let ?n = "case q_page args of None \<Rightarrow> 1 | Some k \<Rightarrow> k"
  let ?pp = "effective_per_page m (case q_per_page args of None \<Rightarrow> 10 | Some k \<Rightarrow> k)"
  from get_guests_Inr [OF assms] obtain sel p where
    sel: "select_of args = Inr sel"
    and p: "paginate m sel ?n (case q_per_page args of None \<Rightarrow> 10 | Some n \<Rightarrow> n) st = Inr p"
    and tot: "tot = total p"
    and prv: "prv = (if has_prev p then prev_num p else None)"
    and nxt: "nxt = (if has_next p then next_num p else None)" by auto
  note pf = paginate_Inr [OF p]
  have 1: "prv = (if ?n = 1 then None else Some (?n - 1))"
    using pf by (auto simp: prv has_prev_def prev_num_def)
  have "has_next p \<longleftrightarrow> ?n * ?pp < int tot"
    using has_next_iff [of p] pf tot by simp
  then have 2: "nxt = (if int tot \<le> ?n * ?pp then None else Some (?n + 1))"
    using pf by (auto simp: nxt next_num_def)
  have 3: "\<exists>sel. select_of args = Inr sel \<and> tot = length (filter sel st)"
    using sel tot pf by simp
  from 1 2 3 show ?thesis unfolding Let_def by blast
qed

text \<open>
  C4. \<open>total_guests\<close> is to be the number of rows that match the filters of the request.
  With only \<open>end_date\<close> given, the guard of line 54 keeps its predicate out of the
  statement (the slip of C3), and the total counts rows that the filter excludes: of the
  three guests of the example, who arrive on 2024-03-10, none arrives by 2024-01-01, and
  the answer gives a total of 3 and all three guests.
\<close>

theorem total_guests_ignores_end_date:
  "get_guests None (no_args\<lparr>q_end_date := Some ''2024-01-01''\<rparr>) ex_store3
     = Inr (GuestList [ex_dict, ex_dict\<lparr>d_id := Some 2\<rparr>, ex_dict\<lparr>d_id := Some 3\<rparr>] 3
              None None, 200) \<and>
   strptime_date ''2024-01-01'' = Inr \<lparr>year = 2024, month = 1, day = 1\<rparr> \<and>
   length (filter (in_date_range None (Some \<lparr>year = 2024, month = 1, day = 1\<rparr>)) ex_store3) = 0"
proof -
  have a: "get_guests None (no_args\<lparr>q_end_date := Some ''2024-01-01''\<rparr>) ex_store3
     = Inr (GuestList [ex_dict, ex_dict\<lparr>d_id := Some 2\<rparr>, ex_dict\<lparr>d_id := Some 3\<rparr>] 3
              None None, 200)"
    by (simp add: list_eval ex_store3_def to_dict_example)
  have b: "strptime_date ''2024-01-01'' = Inr \<lparr>year = 2024, month = 1, day = 1\<rparr>"
    by (simp add: py_eval)
  have c: "length (filter (in_date_range None (Some \<lparr>year = 2024, month = 1, day = 1\<rparr>))
             ex_store3) = 0"
    by (simp add: ex_store3_def in_date_range_def date_le_def ex_guest_def)
  from a b c show ?thesis by blast
qed

text \<open>
  C5. Update and delete by a caller who is not the inviter of an existing guest answer
  403 with the error "Access denied", and leave the store as it was; on a key that
  names no guest they answer 404 with the error "Guest not found".
\<close>

theorem update_delete_not_owner_or_missing:
  "(session_get st guest_id = Some g \<and> identity \<noteq> inviter_id g \<longrightarrow>
      update_guest validate identity guest_id data st
        = (Inr (ErrorMsg ''Access denied'', 403), st) \<and>
      delete_guest identity guest_id st = (Inr (ErrorMsg ''Access denied'', 403), st)) \<and>
   (session_get st guest_id = None \<longrightarrow>
      update_guest validate identity guest_id data st
        = (Inr (ErrorMsg ''Guest not found'', 404), st) \<and>
      delete_guest identity guest_id st = (Inr (ErrorMsg ''Guest not found'', 404), st))"
  by (simp add: update_guest_def delete_guest_def)

theorem update_delete_not_owner_or_missing_witness:
  "session_get [ex_guest] 1 = Some ex_guest \<and> 8 \<noteq> inviter_id ex_guest \<and>
   update_guest ex_validate 8 1 ex_put [ex_guest] = (Inr (ErrorMsg ''Access denied'', 403), [ex_guest]) \<and>
   delete_guest 8 1 [ex_guest] = (Inr (ErrorMsg ''Access denied'', 403), [ex_guest]) \<and>
   session_get [ex_guest] 2 = None \<and>
   update_guest ex_validate 8 2 ex_put [ex_guest] = (Inr (ErrorMsg ''Guest not found'', 404), [ex_guest]) \<and>
   delete_guest 8 2 [ex_guest] = (Inr (ErrorMsg ''Guest not found'', 404), [ex_guest])"
proof -
  have h: "session_get [ex_guest] 1 = Some ex_guest \<and> 8 \<noteq> inviter_id ex_guest"
    by (simp add: session_get_example ex_guest_fields)
  note a = update_delete_not_owner_or_missing
    [of "[ex_guest]" 1 ex_guest 8 ex_validate ex_put, THEN conjunct1, rule_format, OF h]
  note b = update_delete_not_owner_or_missing
    [of "[ex_guest]" 2 _ 8 ex_validate ex_put, THEN conjunct2, rule_format,
     OF session_get_example(2)]
  from h a b session_get_example(2) show ?thesis by blast
qed

text \<open>
  C6, as stated, fails: a page number of 0 does not get the answer 400; the paginator
  aborts the request with 404.
\<close>

theorem page_zero_is_not_a_validation_error:
  "get_guests None (no_args\<lparr>q_page := Some 0\<rparr>) [ex_guest] = Inl (HTTPException 404)"
  by (simp add: list_eval)

text \<open>
  C6, amended. A call of the list with a page number or a page size below 1 never gets
  an answer; when no \<open>start_date\<close> is given it ends in the 404 of the paginator, with no
  check of the route before it.
\<close>

theorem nonpositive_page_aborts:
  assumes "(case q_page args of None \<Rightarrow> 1 | Some k \<Rightarrow> k) < 1 \<or>
           (case q_per_page args of None \<Rightarrow> 10 | Some k \<Rightarrow> k) < 1"
  shows "(\<forall>r. get_guests m args st \<noteq> Inr r) \<and>
         (\<not> truthy_str (q_start_date args) \<longrightarrow> get_guests m args st = Inl (HTTPException 404))"
proof -
  let ?n = "case q_page args of None \<Rightarrow> 1 | Some k \<Rightarrow> k"
  let ?b = "case q_per_page args of None \<Rightarrow> 10 | Some k \<Rightarrow> k"
  have e: "effective_per_page m ?b < 1" if "?b < 1"
    using that by (cases m) (simp_all add: effective_per_page_def min_def)
  have a: "paginate m sel ?n ?b st = Inl (HTTPException 404)" for sel
    using assms e by (auto simp: paginate_def Let_def)
  have "get_guests m args st \<noteq> Inr r" for r
  proof
    assume "get_guests m args st = Inr r"
    from get_guests_Inr [OF this] a show False by auto
  qed
  moreover have "get_guests m args st = Inl (HTTPException 404)"
    if "\<not> truthy_str (q_start_date args)"
  proof -
    from that obtain sel where "select_of args = Inr sel"
      by (simp add: select_of_def Let_def bind_r_def)
    then show ?thesis using a [of sel] by (simp add: get_guests_def Let_def bind_r_def)
  qed
  ultimately show ?thesis by blast
qed

theorem nonpositive_page_aborts_witness:
  "(case q_per_page (no_args\<lparr>q_per_page := Some (- 5)\<rparr>) of None \<Rightarrow> 10 | Some k \<Rightarrow> k) < (1::int) \<and>
   get_guests (Some 100) (no_args\<lparr>q_per_page := Some (- 5)\<rparr>) ex_store3 = Inl (HTTPException 404)"
proof -
  let ?args = "no_args\<lparr>q_per_page := Some (- 5)\<rparr>"
  have h: "(case q_page ?args of None \<Rightarrow> 1 | Some k \<Rightarrow> k) < 1 \<or>
           (case q_per_page ?args of None \<Rightarrow> 10 | Some k \<Rightarrow> k) < 1"
    by simp
  have s: "\<not> truthy_str (q_start_date ?args)"
    by (simp add: no_args_def truthy_str_def)
  from nonpositive_page_aborts [OF h, of "Some 100" ex_store3, THEN conjunct2, rule_format, OF s]
  show ?thesis by simp
qed

text \<open>
  C7. A create, an update or a delete that fails (it leaves through an exception, or it
  answers with a status of 400 or above) leaves the store as it was.
\<close>

theorem failure_leaves_store_unchanged:
  "(is_failure (fst (create_guest validate identity body st)) \<longrightarrow>
      snd (create_guest validate identity body st) = st) \<and>
   (is_failure (fst (update_guest validate identity guest_id data st)) \<longrightarrow>
      snd (update_guest validate identity guest_id data st) = st) \<and>
   (is_failure (fst (delete_guest identity guest_id st)) \<longrightarrow>
      snd (delete_guest identity guest_id st) = st)"
  using create_guest_failure update_guest_failure delete_guest_failure by blast

theorem failure_leaves_store_unchanged_witness:
  "is_failure (fst (create_guest ex_validate 7 Map.empty [ex_guest])) \<and>
   snd (create_guest ex_validate 7 Map.empty [ex_guest]) = [ex_guest] \<and>
   is_failure (fst (update_guest ex_validate 8 1 ex_put [ex_guest])) \<and>
   snd (update_guest ex_validate 8 1 ex_put [ex_guest]) = [ex_guest] \<and>
   is_failure (fst (delete_guest 7 2 [ex_guest])) \<and>
   snd (delete_guest 7 2 [ex_guest]) = [ex_guest]"
proof -
  have 1: "is_failure (fst (create_guest ex_validate 7 Map.empty [ex_guest]))"
    by (simp add: create_invalid_example is_failure_def)
  have 2: "is_failure (fst (update_guest ex_validate 8 1 ex_put [ex_guest]))"
    by (simp add: update_forbidden_example is_failure_def)
  have 3: "is_failure (fst (delete_guest 7 2 [ex_guest]))"
    by (simp add: delete_missing_example is_failure_def)
  note t = failure_leaves_store_unchanged
  from t [of ex_validate 7 Map.empty "[ex_guest]"] 1
  have a: "snd (create_guest ex_validate 7 Map.empty [ex_guest]) = [ex_guest]" by blast
  from t [of ex_validate 8 _ "[ex_guest]" 1 ex_put] 2
  have b: "snd (update_guest ex_validate 8 1 ex_put [ex_guest]) = [ex_guest]" by blast
  from t [of _ 7 _ "[ex_guest]" 2] 3
  have c: "snd (delete_guest 7 2 [ex_guest]) = [ex_guest]" by blast
  from 1 2 3 a b c show ?thesis by blast
qed

text \<open>
  C8. Under the schema of the specification, which takes \<open>stay_time\<close> in the format
  HH:MM:SS, the \<open>stay_time\<close> of the guest that a successful create or update returns is
  the string the payload held under \<open>stay_time\<close>: the duration as it was sent, not the
  exit time. In the example the payload holds 02:30:00 and the exit time is 01:30:00.
\<close>

theorem serialized_stay_time_is_input:
  "(create_guest (guest_schema_validate users guest_types) identity body st
      = (Inr (GuestBody d, 201), st') \<longrightarrow>
      body ''stay_time'' = Some (JStr (d_stay_time d))) \<and>
   (update_guest (guest_schema_validate users guest_types) identity guest_id data st
      = (Inr (GuestBody d, 200), st') \<longrightarrow>
      data ''stay_time'' = Some (JStr (d_stay_time d)))"
proof (intro conjI impI)
  let ?v = "guest_schema_validate users guest_types"
  let ?data = "body(''inviter_id'' \<mapsto> JInt identity)"
  assume c: "create_guest ?v identity body st = (Inr (GuestBody d, 201), st')"
  from create_guest_success [OF c] obtain g0 where
    g0: "new_guest_of ?data = Inr g0"
    and d: "to_dict (g0\<lparr>id_g := Some (max_id st + 1)\<rparr>) = Inr d" by blast
  from new_guest_of_Inr [OF g0] obtain cd ct sd gt iv cm where
    sd: "time_item ?data ''stay_time'' = Inr sd"
    and g: "g0 = set_exit_time (Guest_init gt iv cd ct cm) cd ct sd" by blast
  from schema_stay_time [OF create_guest_validated [OF c]] obtain s where
    s: "?data ''stay_time'' = Some (JStr s)" "hh_mm_ss s" by blast
  from d have "d_stay_time d = time_strftime sd"
    by (auto simp: g to_dict_def set_exit_time_def Let_def)
  with time_item_str [OF sd s] s(1) show "body ''stay_time'' = Some (JStr (d_stay_time d))"
    by simp
next
  let ?v = "guest_schema_validate users guest_types"
  assume u: "update_guest ?v identity guest_id data st = (Inr (GuestBody d, 200), st')"
  from update_guest_success [OF u] obtain g0 g where
    g: "updated_guest_of g0 data = Inr g" and d: "to_dict g = Inr d" by blast
  from updated_guest_of_Inr [OF g] obtain cd ct sd gt iv cm where
    sd: "time_item data ''stay_time'' = Inr sd"
    and ge: "g = (set_exit_time
                    (g0\<lparr>guest_type_id := gt, inviter_id := iv, coming_date := cd, coming_time := ct\<rparr>)
                    cd ct sd)\<lparr>comment := cm\<rparr>" by blast
  from schema_stay_time [OF update_guest_validated [OF u]] obtain s where
    s: "data ''stay_time'' = Some (JStr s)" "hh_mm_ss s" by blast
  from d have "d_stay_time d = time_strftime sd"
    by (auto simp: ge to_dict_def set_exit_time_def Let_def)
  with time_item_str [OF sd s] s(1) show "data ''stay_time'' = Some (JStr (d_stay_time d))"
    by simp
qed

theorem serialized_stay_time_is_input_witness:
  "create_guest (guest_schema_validate [7, 8] [1]) 7 ex_body []
     = (Inr (GuestBody ex_dict, 201), [ex_guest]) \<and>
   ex_body ''stay_time'' = Some (JStr ''02:30:00'') \<and> d_stay_time ex_dict = ''02:30:00'' \<and>
   exit_time ex_guest = Some (time_hms 1 30 0) \<and>
   update_guest (guest_schema_validate [7, 8] [1]) 7 1 ex_put [ex_guest]
     = (Inr (GuestBody ex_dict_put, 200), [ex_guest_put]) \<and>
   ex_put ''stay_time'' = Some (JStr ''01:30:00'') \<and> d_stay_time ex_dict_put = ''01:30:00''"
proof -
  note t = serialized_stay_time_is_input
  note ce = create_example [unfolded ex_validate_def]
  note ue = update_put_example [unfolded ex_validate_def]
  from t [of "[7, 8]" "[1]" 7 ex_body "[]" ex_dict "[ex_guest]", THEN conjunct1, rule_format,
      OF ce]
  have a: "ex_body ''stay_time'' = Some (JStr (d_stay_time ex_dict))" .
  from t [of "[7, 8]" "[1]" 7 _ "[ex_guest]" ex_dict_put "[ex_guest_put]" 1 ex_put,
      THEN conjunct2, rule_format, OF ue]
  have b: "ex_put ''stay_time'' = Some (JStr (d_stay_time ex_dict_put))" .
  have c: "d_stay_time ex_dict = ''02:30:00''" "d_stay_time ex_dict_put = ''01:30:00''"
    "exit_time ex_guest = Some (time_hms 1 30 0)"
    by (simp_all add: ex_dict_def ex_dict_put_def ex_guest_def)
  from a b c ce ue show ?thesis by simp
qed

text \<open>
  C9. The update writes the \<open>inviter_id\<close> of the payload into the guest (line 191), and
  does not set it to the caller as the create does (line 102): user 7, who owns guest 1,
  puts a payload that names user 8, and the guest is owned by user 8 afterwards.
\<close>

theorem update_guest_reassigns_inviter:
  "update_guest ex_validate 7 1 (ex_put(''inviter_id'' \<mapsto> JInt 8)) [ex_guest]
     = (Inr (GuestBody (ex_dict_put\<lparr>d_inviter_id := 8\<rparr>), 200), [ex_guest_put\<lparr>inviter_id := 8\<rparr>])"
proof -
  have v: "ex_validate (ex_put(''inviter_id'' \<mapsto> JInt 8)) (Some 1) = []"
    by (simp add: schema_eval ex_put_def py_eval)
  have u: "updated_guest_of ex_guest (ex_put(''inviter_id'' \<mapsto> JInt 8))
             = Inr (ex_guest_put\<lparr>inviter_id := 8\<rparr>)"
    by (simp add: updated_guest_of_def item_eval ex_put_def py_eval set_exit_time_def
        ex_guest_def ex_guest_put_def Let_def)
  have d: "to_dict (ex_guest_put\<lparr>inviter_id := 8\<rparr>) = Inr (ex_dict_put\<lparr>d_inviter_id := 8\<rparr>)"
    by (simp add: to_dict_def ex_guest_def ex_guest_put_def ex_dict_def ex_dict_put_def py_eval)
  show ?thesis
    by (simp add: update_guest_def session_get_example v u d ex_guest_fields)
qed

text \<open>
  C10. A filter \<open>inviter_id\<close> or \<open>guest_type_id\<close> of value 0 is false in the test of the
  route, so the call answers as the call without that filter does.
\<close>

theorem zero_filter_is_no_filter:
  "get_guests m (args\<lparr>q_inviter_id := Some 0\<rparr>) st
     = get_guests m (args\<lparr>q_inviter_id := None\<rparr>) st \<and>
   get_guests m (args\<lparr>q_guest_type_id := Some 0\<rparr>) st
     = get_guests m (args\<lparr>q_guest_type_id := None\<rparr>) st"
  by (simp add: get_guests_def select_of_def truthy_int_def Let_def)

theorem zero_filter_is_no_filter_witness:
  "get_guests None (no_args\<lparr>q_inviter_id := Some 0\<rparr>) [ex_guest]
     = Inr (GuestList [ex_dict] 1 None None, 200) \<and>
   get_guests None (no_args\<lparr>q_guest_type_id := Some 0\<rparr>) [ex_guest]
     = Inr (GuestList [ex_dict] 1 None None, 200)"
proof -
  have "no_args\<lparr>q_inviter_id := None\<rparr> = no_args" "no_args\<lparr>q_guest_type_id := None\<rparr> = no_args"
    by (simp_all add: no_args_def)
  with zero_filter_is_no_filter [of None no_args "[ex_guest]"] list_all_example
  show ?thesis by simp
qed

end
